theory Spec2Isabelle
  imports Complex_Main
begin

section \<open>JavaScript numbers\<close>

text \<open>
  A JavaScript Number is either a finite value, one of the two infinities, or NaN.
  Finite values are modelled as reals and the arithmetic on them as exact: the rounding
  of binary64 results, overflow of finite operands and the sign of zero are not
  modelled. What is modelled is the part of IEEE 754 the hexagon layer can observe:
  how NaN and the infinities arise (division by zero, square root of a negative number,
  arc cosine outside [-1, 1]) and how they propagate.
\<close>

datatype jsnum = Fin real | PInf | NInf | NaN


fun js_neg :: "jsnum \<Rightarrow> jsnum" where
  "js_neg (Fin a) = Fin (- a)"
| "js_neg PInf = NInf"
| "js_neg NInf = PInf"
| "js_neg NaN = NaN"

fun js_add :: "jsnum \<Rightarrow> jsnum \<Rightarrow> jsnum" where
  "js_add NaN _ = NaN"
| "js_add _ NaN = NaN"
| "js_add (Fin a) (Fin b) = Fin (a + b)"
| "js_add (Fin a) PInf = PInf"
| "js_add (Fin a) NInf = NInf"
| "js_add PInf (Fin b) = PInf"
| "js_add NInf (Fin b) = NInf"
| "js_add PInf PInf = PInf"
| "js_add NInf NInf = NInf"
| "js_add PInf NInf = NaN"
| "js_add NInf PInf = NaN"

definition js_sub :: "jsnum \<Rightarrow> jsnum \<Rightarrow> jsnum" where
  "js_sub a b = js_add a (js_neg b)"

fun js_mul :: "jsnum \<Rightarrow> jsnum \<Rightarrow> jsnum" where
  "js_mul NaN _ = NaN"
| "js_mul _ NaN = NaN"
| "js_mul (Fin a) (Fin b) = Fin (a * b)"
| "js_mul (Fin a) PInf = (if a = 0 then NaN else if 0 < a then PInf else NInf)"
| "js_mul (Fin a) NInf = (if a = 0 then NaN else if 0 < a then NInf else PInf)"
| "js_mul PInf (Fin b) = (if b = 0 then NaN else if 0 < b then PInf else NInf)"
| "js_mul NInf (Fin b) = (if b = 0 then NaN else if 0 < b then NInf else PInf)"
| "js_mul PInf PInf = PInf"
| "js_mul NInf NInf = PInf"
| "js_mul PInf NInf = NInf"
| "js_mul NInf PInf = NInf"

text \<open>
  Division. A zero divisor is taken as +0: the only divisors of the layer are the
  literal 2 and the result of \<open>Math.sqrt\<close>, which is never -0 here.
\<close>

fun js_div :: "jsnum \<Rightarrow> jsnum \<Rightarrow> jsnum" where
  "js_div NaN _ = NaN"
| "js_div _ NaN = NaN"
| "js_div (Fin a) (Fin b) =
     (if b = 0 then (if a = 0 then NaN else if 0 < a then PInf else NInf)
      else Fin (a / b))"
| "js_div (Fin a) PInf = Fin 0"
| "js_div (Fin a) NInf = Fin 0"
| "js_div PInf (Fin b) = (if 0 \<le> b then PInf else NInf)"
| "js_div NInf (Fin b) = (if 0 \<le> b then NInf else PInf)"
| "js_div PInf PInf = NaN"
| "js_div NInf NInf = NaN"
| "js_div PInf NInf = NaN"
| "js_div NInf PInf = NaN"

fun Math_sqrt :: "jsnum \<Rightarrow> jsnum" where
  "Math_sqrt (Fin a) = (if a < 0 then NaN else Fin (sqrt a))"
| "Math_sqrt PInf = PInf"
| "Math_sqrt NInf = NaN"
| "Math_sqrt NaN = NaN"

fun Math_acos :: "jsnum \<Rightarrow> jsnum" where
  "Math_acos (Fin a) = (if - 1 \<le> a \<and> a \<le> 1 then Fin (arccos a) else NaN)"
| "Math_acos _ = NaN"

fun Math_sign :: "jsnum \<Rightarrow> jsnum" where
  "Math_sign (Fin a) = Fin (sgn a)"
| "Math_sign PInf = Fin 1"
| "Math_sign NInf = Fin (- 1)"
| "Math_sign NaN = NaN"

fun Math_min :: "jsnum \<Rightarrow> jsnum \<Rightarrow> jsnum" where
  "Math_min NaN _ = NaN"
| "Math_min _ NaN = NaN"
| "Math_min NInf _ = NInf"
| "Math_min _ NInf = NInf"
| "Math_min PInf b = b"
| "Math_min a PInf = a"
| "Math_min (Fin a) (Fin b) = Fin (min a b)"



section \<open>Float32Array\<close>

text \<open>
  The instance buffers are \<open>Float32Array\<close>s. Storing a Number into one converts it to
  IEEE 754 binary32, rounding to nearest, ties to even: 24 significant bits, least
  normal exponent -126, overflow to an infinity from 2^128 on.
\<close>

definition round_ties_even :: "real \<Rightarrow> int" where
  "round_ties_even r =
     (let f = \<lfloor>r\<rfloor> in
      if r - of_int f < 1 / 2 then f
      else if 1 / 2 < r - of_int f then f + 1
      else if even f then f else f + 1)"

definition binary32 :: "real \<Rightarrow> jsnum" where
  "binary32 r =
     (if r = 0 then Fin 0
      else
        let e = max \<lfloor>log 2 \<bar>r\<bar>\<rfloor> (- 126);
            q = 2 powr (of_int (e - 23));
            v = of_int (round_ties_even (r / q)) * q
        in if 2 ^ 128 \<le> v then PInf
           else if v \<le> - (2 ^ 128) then NInf
           else Fin v)"

fun fround :: "jsnum \<Rightarrow> jsnum" where
  "fround (Fin r) = binary32 r"
| "fround PInf = PInf"
| "fround NInf = NInf"
| "fround NaN = NaN"

type_synonym Float32Array = "jsnum list"

text \<open>\<open>new Float32Array(n)\<close>: \<open>n\<close> elements, all zero.\<close>

definition new_Float32Array :: "nat \<Rightarrow> Float32Array" where
  "new_Float32Array n = replicate n (Fin 0)"

text \<open>
  \<open>buf[k] = v\<close> on a typed array: the value is converted to binary32; a write at an
  index outside the array is ignored, and the length never changes.
\<close>

definition store :: "Float32Array \<Rightarrow> nat \<Rightarrow> jsnum \<Rightarrow> Float32Array" where
  "store buf k v = (if k < length buf then buf[k := fround v] else buf)"

text \<open>
  Reading an element of an ordinary array gives \<open>undefined\<close> (here \<open>None\<close>) outside the
  array, and \<open>undefined\<close> converts to NaN when it is stored as a number.
\<close>

definition elem :: "'a list \<Rightarrow> nat \<Rightarrow> 'a option" where
  "elem xs k = (if k < length xs then Some (xs ! k) else None)"

fun ToNumber :: "jsnum option \<Rightarrow> jsnum" where
  "ToNumber None = NaN"
| "ToNumber (Some v) = v"

text \<open>\<open>Array.prototype.forEach\<close>: the callback gets the element and its index.\<close>

fun forEach :: "('a \<Rightarrow> nat \<Rightarrow> 's \<Rightarrow> 's) \<Rightarrow> 'a list \<Rightarrow> nat \<Rightarrow> 's \<Rightarrow> 's" where
  "forEach f [] i s = s"
| "forEach f (h # hs) i s = forEach f hs (Suc i) (f h i s)"

section \<open>The hexagon layer\<close>

record point =
  px :: jsnum
  py :: jsnum

text \<open>
  A dataset item. A vertex is an array \<open>[x, y]\<close>, read by the layer as \<open>vertex[0]\<close>
  and \<open>vertex[1]\<close>.
\<close>

record hexagon =
  centroid :: point
  color :: "jsnum list"
  vertices :: "(jsnum \<times> jsnum) list"

text \<open>
  What the methods read from \<open>this\<close>. The fields that the base class
  \<open>BaseMapLayer\<close> owns (\<open>_numInstances\<close>, \<open>isPickable\<close>, \<open>elevation\<close>,
  \<open>radius\<close>, \<open>project\<close>, \<open>screenToSpace\<close>) are parameters of the model;
  \<open>this.radius\<close> is the user radius scale that the specification calls dotRadius.
  \<open>props.data\<close> may be missing (\<open>None\<close>), which the layer tests for.
  \<open>pickingColor\<close> is the three-channel identifier that the picking collaborator
  assigns to an instance.
\<close>

record layer =
  this_numInstances :: nat
  this_isPickable :: bool
  this_elevation :: jsnum
  this_radius :: jsnum
  props_data :: "hexagon list option"
  this_project :: "jsnum \<times> jsnum \<Rightarrow> point"
  this_screenToSpace :: "jsnum \<Rightarrow> jsnum \<Rightarrow> point"
  pickingColor :: "nat \<Rightarrow> jsnum \<times> jsnum \<times> jsnum"

record attribute =
  attr_value :: "Float32Array option"
  instanced :: nat
  attr_size :: nat

record uniforms =
  uniform_radius :: "jsnum option"
  uniform_angle :: "jsnum option"

record attributes =
  attr_positions :: "attribute option"
  attr_colors :: "attribute option"
  attr_pickingColors :: "attribute option"

text \<open>\<open>this.state\<close>; a property that was never assigned is \<open>None\<close>.\<close>

record state =
  dataChanged :: bool
  viewportChanged :: bool
  positions :: "Float32Array option"
  colors :: "Float32Array option"
  pickingColors :: "Float32Array option"
  radius :: "jsnum option"
  angle :: "jsnum option"
  uniforms :: uniforms
  attributes :: attributes

datatype error = TypeError

text \<open>
  A method either returns, or throws; the state is mutated in place, so a throw leaves
  behind the state reached so far.
\<close>

datatype outcome = Done state | Thrown error state

fun and_then :: "outcome \<Rightarrow> (state \<Rightarrow> outcome) \<Rightarrow> outcome" where
  "and_then (Done s) f = f s"
| "and_then (Thrown e s) f = Thrown e s"

definition updateUniforms :: "state \<Rightarrow> state" where
  "updateUniforms s =
     s\<lparr>uniforms := \<lparr>uniform_radius = radius s, uniform_angle = angle s\<rparr>\<rparr>"

definition updateAttributes :: "layer \<Rightarrow> state \<Rightarrow> state" where
  "updateAttributes l s =
     (let s1 = s\<lparr>attributes := (attributes s)\<lparr>attr_positions :=
                 Some \<lparr>attr_value = positions s, instanced = 1, attr_size = 3\<rparr>\<rparr>\<rparr>;
          s2 = s1\<lparr>attributes := (attributes s1)\<lparr>attr_colors :=
                 Some \<lparr>attr_value = colors s1, instanced = 1, attr_size = 3\<rparr>\<rparr>\<rparr>
      in if \<not> this_isPickable l then s2
         else s2\<lparr>attributes := (attributes s2)\<lparr>attr_pickingColors :=
                 Some \<lparr>attr_value = pickingColors s2, instanced = 1, attr_size = 3\<rparr>\<rparr>\<rparr>)"

definition allocateGLBuffers :: "layer \<Rightarrow> state \<Rightarrow> state" where
  "allocateGLBuffers l s =
     (let N = this_numInstances l;
          s1 = s\<lparr>positions := Some (new_Float32Array (N * 3))\<rparr>;
          s2 = s1\<lparr>colors := Some (new_Float32Array (N * 3))\<rparr>
      in if \<not> this_isPickable l then s2
         else s2\<lparr>pickingColors := Some (new_Float32Array (N * 3))\<rparr>)"

text \<open>The body of the callback of \<open>_calculatePositions\<close>, on the positions buffer.\<close>

definition position_of :: "layer \<Rightarrow> hexagon \<Rightarrow> nat \<Rightarrow> Float32Array \<Rightarrow> Float32Array" where
  "position_of l hexagon i buf =
     store (store (store buf (i * 3 + 0) (px (centroid hexagon)))
                  (i * 3 + 1) (py (centroid hexagon)))
           (i * 3 + 2) (this_elevation l)"

text \<open>
  \<open>forEach\<close> on missing data throws; so does the first assignment into a buffer that
  was never allocated.
\<close>

definition calculatePositions :: "layer \<Rightarrow> state \<Rightarrow> outcome" where
  "calculatePositions l s =
     (case props_data l of
        None \<Rightarrow> Thrown TypeError s
      | Some d \<Rightarrow>
          (case positions s of
             None \<Rightarrow> if d = [] then Done s else Thrown TypeError s
           | Some buf \<Rightarrow> Done (s\<lparr>positions := Some (forEach (position_of l) d 0 buf)\<rparr>)))"

definition color_of :: "hexagon \<Rightarrow> nat \<Rightarrow> Float32Array \<Rightarrow> Float32Array" where
  "color_of hexagon i buf =
     store (store (store buf (i * 3 + 0) (ToNumber (elem (color hexagon) 0)))
                  (i * 3 + 1) (ToNumber (elem (color hexagon) 1)))
           (i * 3 + 2) (ToNumber (elem (color hexagon) 2))"

definition calculateColors :: "layer \<Rightarrow> state \<Rightarrow> outcome" where
  "calculateColors l s =
     (case props_data l of
        None \<Rightarrow> Thrown TypeError s
      | Some d \<Rightarrow>
          (case colors s of
             None \<Rightarrow> if d = [] then Done s else Thrown TypeError s
           | Some buf \<Rightarrow> Done (s\<lparr>colors := Some (forEach color_of d 0 buf)\<rparr>)))"

text \<open>
  Modelled from the spec: \<open>_calculatePickingColors\<close> is inherited from
  \<open>BaseMapLayer\<close>, whose source is not part of the layer's file. The specification
  describes it as filling, if the layer is pickable, \<open>pickingColors[3i..3i+2]\<close> of each
  instance \<open>i\<close> with an injected three-channel identifier, here \<open>pickingColor l i\<close>.
\<close>

definition pickingColor_of :: "layer \<Rightarrow> nat \<Rightarrow> nat \<Rightarrow> Float32Array \<Rightarrow> Float32Array" where
  "pickingColor_of l i k buf =
     (case pickingColor l i of
        (r, g, b) \<Rightarrow> store (store (store buf (i * 3 + 0) r) (i * 3 + 1) g) (i * 3 + 2) b)"

text \<open>
  Modelled from the spec: the inherited method itself. It does nothing on a layer that is
  not pickable, and otherwise writes the identifier of each of the \<open>_numInstances\<close>
  instances into the picking buffer that allocate created.
\<close>

definition calculatePickingColors :: "layer \<Rightarrow> state \<Rightarrow> outcome" where
  "calculatePickingColors l s =
     (if \<not> this_isPickable l then Done s
      else
        (case pickingColors s of
           None \<Rightarrow> if this_numInstances l = 0 then Done s else Thrown TypeError s
         | Some buf \<Rightarrow>
             Done (s\<lparr>pickingColors :=
               Some (forEach (pickingColor_of l) [0..<this_numInstances l] 0 buf)\<rparr>)))"

text \<open>
  \<open>_calculateRadiusAndAngle\<close>. \<open>vertices[k]\<close> is \<open>undefined\<close> for \<open>k\<close> outside the
  array, and reading \<open>[0]\<close> of \<open>undefined\<close> throws a TypeError: at \<open>vertex0[0]\<close> when
  there is no vertex at all, at \<open>vertex3[0]\<close> when there are fewer than four.
\<close>

definition calculateRadiusAndAngle :: "layer \<Rightarrow> state \<Rightarrow> outcome" where
  "calculateRadiusAndAngle l s =
     (case props_data l of
        None \<Rightarrow> Done s
      | Some [] \<Rightarrow> Done s
      | Some (hexagon0 # _) \<Rightarrow>
          (case elem (vertices hexagon0) 0 of
             None \<Rightarrow> Thrown TypeError s
           | Some vertex0 \<Rightarrow>
               (case elem (vertices hexagon0) 3 of
                  None \<Rightarrow> Thrown TypeError s
                | Some vertex3 \<Rightarrow>
                    (let spaceCoord0 = this_project l (fst vertex0, snd vertex0);
                         spaceCoord3 = this_project l (fst vertex3, snd vertex3);
                         screenCoord0 = this_screenToSpace l (px spaceCoord0) (py spaceCoord0);
                         screenCoord3 = this_screenToSpace l (px spaceCoord3) (py spaceCoord3);
                         dx = js_sub (px screenCoord0) (px screenCoord3);
                         dy = js_sub (py screenCoord0) (py screenCoord3);
                         dxy = Math_sqrt (js_add (js_mul dx dx) (js_mul dy dy));
                         s1 = s\<lparr>angle :=
                                Some (js_mul (Math_acos (js_div dx dxy)) (js_neg (Math_sign dy)))\<rparr>
                     in Done (s1\<lparr>radius :=
                                Some (js_mul (js_div dxy (Fin 2))
                                             (Math_min (Fin 1) (this_radius l)))\<rparr>)))))"

definition updateLayer :: "layer \<Rightarrow> state \<Rightarrow> outcome" where
  "updateLayer l s =
     (let dataChanged0 = dataChanged s; viewportChanged0 = viewportChanged s in
      and_then
        (and_then
           (if dataChanged0
            then and_then (and_then (and_then (Done (allocateGLBuffers l s))
                                              (calculatePositions l))
                                    (calculateColors l))
                          (calculatePickingColors l)
            else Done s)
           (\<lambda>s. if viewportChanged0 \<or> dataChanged0
                then calculateRadiusAndAngle l s else Done s))
        (\<lambda>s. let s1 = updateUniforms s;
                  s2 = updateAttributes l s1;
                  s3 = s2\<lparr>dataChanged := False\<rparr>
              in Done (s3\<lparr>viewportChanged := False\<rparr>)))"

section \<open>Notions used to state the properties\<close>

text \<open>The state a call leaves behind, and whether the call returned.\<close>

fun final :: "outcome \<Rightarrow> state" where
  "final (Done s) = s"
| "final (Thrown e s) = s"

fun returned :: "outcome \<Rightarrow> bool" where
  "returned (Done s) = True"
| "returned (Thrown e s) = False"

text \<open>
  The steps of \<open>updateLayer\<close> under names: the block run when the data changed
  (allocate, then the three fills), and the terminal step (publish the uniforms, publish
  the attributes, clear the two flags).
\<close>

definition rebuild :: "layer \<Rightarrow> state \<Rightarrow> outcome" where
  "rebuild l s =
     and_then (and_then (and_then (Done (allocateGLBuffers l s)) (calculatePositions l))
                        (calculateColors l))
              (calculatePickingColors l)"

definition publish :: "layer \<Rightarrow> state \<Rightarrow> state" where
  "publish l s =
     (updateAttributes l (updateUniforms s))\<lparr>dataChanged := False, viewportChanged := False\<rparr>"

text \<open>
  The intermediate values of \<open>_calculateRadiusAndAngle\<close> as functions of the two
  reference vertices: the screen coordinate of a vertex, and \<open>dx\<close>, \<open>dy\<close>, \<open>dxy\<close>.
\<close>

definition screenCoord :: "layer \<Rightarrow> jsnum \<times> jsnum \<Rightarrow> point" where
  "screenCoord l vertex =
     (let spaceCoord = this_project l (fst vertex, snd vertex)
      in this_screenToSpace l (px spaceCoord) (py spaceCoord))"

definition dx_of :: "layer \<Rightarrow> jsnum \<times> jsnum \<Rightarrow> jsnum \<times> jsnum \<Rightarrow> jsnum" where
  "dx_of l vertex0 vertex3 = js_sub (px (screenCoord l vertex0)) (px (screenCoord l vertex3))"

definition dy_of :: "layer \<Rightarrow> jsnum \<times> jsnum \<Rightarrow> jsnum \<times> jsnum \<Rightarrow> jsnum" where
  "dy_of l vertex0 vertex3 = js_sub (py (screenCoord l vertex0)) (py (screenCoord l vertex3))"

definition dxy_of :: "layer \<Rightarrow> jsnum \<times> jsnum \<Rightarrow> jsnum \<times> jsnum \<Rightarrow> jsnum" where
  "dxy_of l vertex0 vertex3 =
     (let dx = dx_of l vertex0 vertex3; dy = dy_of l vertex0 vertex3
      in Math_sqrt (js_add (js_mul dx dx) (js_mul dy dy)))"




text \<open>Three consecutive stores, and a loop of them: the shape of every fill.\<close>

definition write3 :: "Float32Array \<Rightarrow> nat \<Rightarrow> jsnum \<Rightarrow> jsnum \<Rightarrow> jsnum \<Rightarrow> Float32Array" where
  "write3 buf i a b c = store (store (store buf (i * 3 + 0) a) (i * 3 + 1) b) (i * 3 + 2) c"

definition fill3 ::
  "('a \<Rightarrow> jsnum) \<Rightarrow> ('a \<Rightarrow> jsnum) \<Rightarrow> ('a \<Rightarrow> jsnum) \<Rightarrow> 'a list \<Rightarrow> nat \<Rightarrow> Float32Array \<Rightarrow> Float32Array"
  where
  "fill3 a b c d i buf = forEach (\<lambda>h i buf. write3 buf i (a h) (b h) (c h)) d i buf"

subsection \<open>Concrete inputs\<close>

text \<open>
  A layer whose two projections are the identity, with the constructor's defaults for
  the elevation, over a dataset of hexagons that differ in their reference vertices.
\<close>

definition identity_project :: "jsnum \<times> jsnum \<Rightarrow> point" where
  "identity_project v = \<lparr>px = fst v, py = snd v\<rparr>"

definition identity_screenToSpace :: "jsnum \<Rightarrow> jsnum \<Rightarrow> point" where
  "identity_screenToSpace a b = \<lparr>px = a, py = b\<rparr>"

definition example_hexagon :: "real \<Rightarrow> real \<Rightarrow> real \<Rightarrow> real \<Rightarrow> hexagon" where
  "example_hexagon x0 y0 x3 y3 =
     \<lparr>centroid = \<lparr>px = Fin 1, py = Fin 2\<rparr>, color = [Fin 10, Fin 20, Fin 30],
      vertices = [(Fin x0, Fin y0), (Fin 5, Fin 5), (Fin 6, Fin 6), (Fin x3, Fin y3)]\<rparr>"

text \<open>
  Variants: a hexagon whose centroid abscissa is 2^24 + 1, one with three vertices only,
  and one whose reference axis is vertical on the screen.
\<close>

definition wide_hexagon :: hexagon where
  "wide_hexagon = (example_hexagon 2 0 0 0)\<lparr>centroid := \<lparr>px = Fin 16777217, py = Fin 2\<rparr>\<rparr>"

definition short_hexagon :: hexagon where
  "short_hexagon = (example_hexagon 2 0 0 0)\<lparr>vertices := [(Fin 2, Fin 0), (Fin 5, Fin 5), (Fin 6, Fin 6)]\<rparr>"


definition example_layer :: "hexagon list \<Rightarrow> jsnum \<Rightarrow> bool \<Rightarrow> layer" where
  "example_layer d r p =
     \<lparr>this_numInstances = length d, this_isPickable = p, this_elevation = Fin 101,
      this_radius = r, props_data = Some d, this_project = identity_project,
      this_screenToSpace = identity_screenToSpace,
      pickingColor = (\<lambda>i. (Fin (real (i + 1)), Fin 0, Fin 0))\<rparr>"

definition fresh_state :: "bool \<Rightarrow> bool \<Rightarrow> state" where
  "fresh_state dc vc =
     \<lparr>dataChanged = dc, viewportChanged = vc, positions = None, colors = None,
      pickingColors = None, radius = None, angle = None,
      uniforms = \<lparr>uniform_radius = None, uniform_angle = None\<rparr>,
      attributes = \<lparr>attr_positions = None, attr_colors = None, attr_pickingColors = None\<rparr>\<rparr>"

section \<open>Lemmas on the building blocks\<close>

subsection \<open>Rounding to binary32\<close>

lemma round_ties_even_of_int: "round_ties_even (of_int k) = k"
  by (simp add: round_ties_even_def)

lemma binary32_exact:
  assumes "r \<noteq> 0" and "\<bar>r\<bar> < 2 ^ 128"
    and "r / 2 powr (of_int (max \<lfloor>log 2 \<bar>r\<bar>\<rfloor> (- 126) - 23)) = of_int k"
  shows "binary32 r = Fin r"
proof -
  define q :: real where "q = 2 powr (of_int (max \<lfloor>log 2 \<bar>r\<bar>\<rfloor> (- 126) - 23))"
  have q: "0 < q" by (simp add: q_def)
  have "r / q = of_int k" using assms(3) by (simp add: q_def)
  then have v: "of_int (round_ties_even (r / q)) * q = r"
    using q by (simp add: round_ties_even_of_int field_simps)
  have "\<not> 2 ^ 128 \<le> r" and "\<not> r \<le> - (2 ^ 128)" using assms(2) by auto
  with v show ?thesis
    using assms(1) unfolding binary32_def Let_def q_def [symmetric] by simp
qed

lemma floor_log2_int_bounds:
  fixes n :: int
  assumes "n \<noteq> 0" and "\<bar>n\<bar> < 2 ^ 24"
  shows "0 \<le> \<lfloor>log 2 \<bar>real_of_int n\<bar>\<rfloor>" and "\<lfloor>log 2 \<bar>real_of_int n\<bar>\<rfloor> \<le> 23"
proof -
  have one: "1 \<le> \<bar>real_of_int n\<bar>" using assms(1) by linarith
  then have "0 \<le> log 2 \<bar>real_of_int n\<bar>" by simp
  then show "0 \<le> \<lfloor>log 2 \<bar>real_of_int n\<bar>\<rfloor>" by simp
  have "real_of_int \<bar>n\<bar> < real_of_int (2 ^ 24)" using assms(2) by (simp only: of_int_less_iff)
  then have "\<bar>real_of_int n\<bar> < 2 ^ 24" by simp
  then have "log 2 \<bar>real_of_int n\<bar> < 24"
    using one by (simp add: log_less_iff powr_realpow)
  then show "\<lfloor>log 2 \<bar>real_of_int n\<bar>\<rfloor> \<le> 23" by linarith
qed

lemma powr_below_23:
  assumes "0 \<le> e" and "e \<le> 23"
  shows "2 powr (real_of_int (e - 23)) = 1 / 2 ^ nat (23 - e)"
proof -
  have "real_of_int (e - 23) = - real (nat (23 - e))" using assms by simp
  then have "2 powr (real_of_int (e - 23)) = 2 powr (- real (nat (23 - e)))" by (simp only:)
  also have "\<dots> = 1 / 2 ^ nat (23 - e)"
    by (simp only: powr_minus powr_realpow divide_inverse zero_less_numeral mult_1)
  finally show ?thesis .
qed

text \<open>Every integer below 2^24 in magnitude is a binary32 value: storing it is exact.\<close>

lemma binary32_of_int:
  fixes n :: int
  assumes "\<bar>n\<bar> < 2 ^ 24"
  shows "binary32 (of_int n) = Fin (of_int n)"
proof (cases "n = 0")
  case True
  then show ?thesis by (simp add: binary32_def)
next
  case False
  define e where "e = \<lfloor>log 2 \<bar>real_of_int n\<bar>\<rfloor>"
  have e: "0 \<le> e" "e \<le> 23"
    using floor_log2_int_bounds [OF False assms] by (simp_all add: e_def)
  then have m: "max e (- 126) = e" by simp
  have "real_of_int n / 2 powr (of_int (e - 23)) = of_int (n * 2 ^ nat (23 - e))"
    by (simp only: powr_below_23 [OF e]) simp
  then have k: "real_of_int n / 2 powr (of_int (max e (- 126) - 23)) = of_int (n * 2 ^ nat (23 - e))"
    by (simp only: m)
  have "real_of_int \<bar>n\<bar> < real_of_int (2 ^ 24)" using assms by (simp only: of_int_less_iff)
  then have b: "\<bar>real_of_int n\<bar> < 2 ^ 128" by simp
  have z: "real_of_int n \<noteq> 0" using False by simp
  show ?thesis
    using z b k unfolding e_def by (rule binary32_exact)
qed

lemma binary32_eval:
  assumes "r \<noteq> 0" and "\<lfloor>log 2 \<bar>r\<bar>\<rfloor> = e" and "- 126 \<le> e"
    and "2 powr (of_int (e - 23)) = q" and "round_ties_even (r / q) = k"
    and "\<bar>of_int k * q\<bar> < 2 ^ 128"
  shows "binary32 r = Fin (of_int k * q)"
proof -
  have m: "max \<lfloor>log 2 \<bar>r\<bar>\<rfloor> (- 126) = e" using assms(2,3) by simp
  have "\<not> 2 ^ 128 \<le> of_int k * q" and "\<not> of_int k * q \<le> - (2 ^ 128)"
    using assms(6) by auto
  then show ?thesis
    using assms(1) unfolding binary32_def Let_def m assms(4) assms(5) by simp
qed

text \<open>2^24 + 1 is a binary64 value but not a binary32 value; it lies half way between
  two of them and rounds to the even one.\<close>

lemma floor_log2_16777217: "\<lfloor>log 2 \<bar>16777217 :: real\<bar>\<rfloor> = 24"
proof -
  have "(2::real) powr (real_of_int 24) \<le> 16777217
      \<and> (16777217::real) < 2 powr (real_of_int (24 + 1))"
    by simp
  then have "\<lfloor>log 2 (16777217 :: real)\<rfloor> = 24"
    by (subst floor_log_eq_powr_iff) simp_all
  then show ?thesis by simp
qed

lemma round_ties_even_half: "round_ties_even (16777217 / 2) = 8388608"
proof -
  have "\<lfloor>16777217 / 2 :: real\<rfloor> = 8388608" by linarith
  then show ?thesis by (simp add: round_ties_even_def Let_def)
qed

lemma binary32_16777217: "binary32 16777217 = Fin 16777216"
proof -
  have q: "2 powr (real_of_int (24 - 23)) = (2 :: real)" by simp
  have z: "(16777217 :: real) \<noteq> 0" by simp
  have m: "- 126 \<le> (24 :: int)" by simp
  have b: "\<bar>real_of_int 8388608 * 2\<bar> < 2 ^ 128" by simp
  have "binary32 16777217 = Fin (real_of_int 8388608 * 2)"
    by (rule binary32_eval [OF z floor_log2_16777217 m q round_ties_even_half b])
  moreover have "real_of_int 8388608 * 2 = 16777216" by simp
  ultimately show ?thesis by (simp only:)
qed

subsection \<open>Stores and fills\<close>

lemma length_store [simp]: "length (store buf k v) = length buf"
  by (simp add: store_def)

lemma length_write3 [simp]: "length (write3 buf i a b c) = length buf"
  by (simp add: write3_def)

lemma write3_below: "k < i * 3 \<Longrightarrow> write3 buf i a b c ! k = buf ! k"
  by (simp add: write3_def store_def)

lemma write3_nth:
  assumes "i * 3 + 2 < length buf"
  shows "write3 buf i a b c ! (i * 3 + 0) = fround a"
    and "write3 buf i a b c ! (i * 3 + 1) = fround b"
    and "write3 buf i a b c ! (i * 3 + 2) = fround c"
  using assms by (simp_all add: write3_def store_def)

lemma fill3_Nil [simp]: "fill3 a b c [] i buf = buf"
  by (simp add: fill3_def)

lemma fill3_Cons [simp]:
  "fill3 a b c (h # hs) i buf = fill3 a b c hs (Suc i) (write3 buf i (a h) (b h) (c h))"
  by (simp add: fill3_def)

lemma length_fill3 [simp]: "length (fill3 a b c d i buf) = length buf"
  by (induction d arbitrary: i buf) simp_all

text \<open>A fill that starts at instance \<open>i\<close> leaves everything below \<open>3i\<close> alone.\<close>

lemma fill3_below: "k < i * 3 \<Longrightarrow> fill3 a b c d i buf ! k = buf ! k"
proof (induction d arbitrary: i buf)
  case Nil
  then show ?case by simp
next
  case (Cons h hs)
  have "fill3 a b c (h # hs) i buf ! k = fill3 a b c hs (Suc i) (write3 buf i (a h) (b h) (c h)) ! k"
    by simp
  also have "\<dots> = write3 buf i (a h) (b h) (c h) ! k"
    using Cons.prems by (intro Cons.IH) simp
  also have "\<dots> = buf ! k"
    using Cons.prems by (rule write3_below)
  finally show ?case .
qed

lemma fill3_nth:
  assumes "j < length d" and "(i + length d) * 3 \<le> length buf"
  shows "fill3 a b c d i buf ! ((i + j) * 3 + 0) = fround (a (d ! j))
       \<and> fill3 a b c d i buf ! ((i + j) * 3 + 1) = fround (b (d ! j))
       \<and> fill3 a b c d i buf ! ((i + j) * 3 + 2) = fround (c (d ! j))"
  using assms
proof (induction d arbitrary: i j buf)
  case Nil
  then show ?case by simp
next
  case (Cons h hs)
  let ?buf = "write3 buf i (a h) (b h) (c h)"
  show ?case
  proof (cases j)
    case 0
    have room: "i * 3 + 2 < length buf" using Cons.prems(2) by simp
    have keep: "\<And>k. k < Suc i * 3 \<Longrightarrow> fill3 a b c hs (Suc i) ?buf ! k = ?buf ! k"
      by (rule fill3_below)
    show ?thesis
      using 0 write3_nth [OF room, of "a h" "b h" "c h"]
        keep [of "i * 3"] keep [of "i * 3 + 1"] keep [of "i * 3 + 2"]
      by simp
  next
    case (Suc j')
    have "j' < length hs" using Cons.prems(1) Suc by simp
    moreover have "(Suc i + length hs) * 3 \<le> length ?buf" using Cons.prems(2) by simp
    ultimately have IH: "fill3 a b c hs (Suc i) ?buf ! ((Suc i + j') * 3 + 0) = fround (a (hs ! j'))
       \<and> fill3 a b c hs (Suc i) ?buf ! ((Suc i + j') * 3 + 1) = fround (b (hs ! j'))
       \<and> fill3 a b c hs (Suc i) ?buf ! ((Suc i + j') * 3 + 2) = fround (c (hs ! j'))"
      by (rule Cons.IH)
    have idx: "Suc i + j' = i + j" using Suc by simp
    show ?thesis
      using IH Suc unfolding idx by simp
  qed
qed

lemma position_of_fill3:
  "forEach (position_of l) d i buf =
     fill3 (\<lambda>h. px (centroid h)) (\<lambda>h. py (centroid h)) (\<lambda>h. this_elevation l) d i buf"
  by (induction d arbitrary: i buf) (simp_all add: position_of_def write3_def)

lemma color_of_fill3:
  "forEach color_of d i buf =
     fill3 (\<lambda>h. ToNumber (elem (color h) 0)) (\<lambda>h. ToNumber (elem (color h) 1))
           (\<lambda>h. ToNumber (elem (color h) 2)) d i buf"
  by (induction d arbitrary: i buf) (simp_all add: color_of_def write3_def)

lemma length_pickingColors_fill [simp]:
  "length (forEach (pickingColor_of l) ks i buf) = length buf"
  by (induction ks arbitrary: i buf) (simp_all add: pickingColor_of_def split: prod.splits)

lemma binary32_numeral:
  "\<bar>numeral k :: int\<bar> < 2 ^ 24 \<Longrightarrow> binary32 (numeral k) = Fin (numeral k)"
  using binary32_of_int [of "numeral k"] by simp

lemma binary32_0 [simp]: "binary32 0 = Fin 0"
  by (simp add: binary32_def)

lemma binary32_1 [simp]: "binary32 1 = Fin 1"
  using binary32_of_int [of 1] by simp

subsection \<open>The steps of the update pass\<close>

lemma returned_final: "returned out \<Longrightarrow> out = Done (final out)"
  by (cases out) simp_all

lemma and_then_Done:
  "and_then out f = Done s' \<Longrightarrow> \<exists>s. out = Done s \<and> f s = Done s'"
  by (cases out) simp_all

lemma updateLayer_unfold:
  "updateLayer l s =
     and_then
       (if dataChanged s then and_then (rebuild l s) (calculateRadiusAndAngle l)
        else if viewportChanged s then calculateRadiusAndAngle l s
        else Done s)
       (\<lambda>s. Done (publish l s))"
  by (simp add: updateLayer_def rebuild_def publish_def Let_def)

lemma rebuild_eq:
  assumes "props_data l = Some d"
  shows "rebuild l s =
     Done (s\<lparr>positions := Some (forEach (position_of l) d 0 (new_Float32Array (this_numInstances l * 3))),
             colors := Some (forEach color_of d 0 (new_Float32Array (this_numInstances l * 3))),
             pickingColors :=
               (if this_isPickable l
                then Some (forEach (pickingColor_of l) [0..<this_numInstances l] 0
                             (new_Float32Array (this_numInstances l * 3)))
                else pickingColors s)\<rparr>)"
  using assms
  by (simp add: rebuild_def allocateGLBuffers_def calculatePositions_def calculateColors_def
      calculatePickingColors_def Let_def)

lemma rebuild_attributes:
  "attributes (final (rebuild l s)) = attributes s"
  by (simp add: rebuild_def allocateGLBuffers_def calculatePositions_def calculateColors_def
      calculatePickingColors_def Let_def split: option.splits)

lemma calculateRadiusAndAngle_nodata:
  "props_data l = None \<or> props_data l = Some [] \<Longrightarrow> calculateRadiusAndAngle l s = Done s"
  by (auto simp: calculateRadiusAndAngle_def)

lemma calculateRadiusAndAngle_short:
  assumes "props_data l = Some (h # hs)" and "length (vertices h) < 4"
  shows "calculateRadiusAndAngle l s = Thrown TypeError s"
  using assms by (simp add: calculateRadiusAndAngle_def elem_def split: option.splits)

lemma calculateRadiusAndAngle_eq:
  assumes "props_data l = Some (h # hs)"
    and "elem (vertices h) 0 = Some v0" and "elem (vertices h) 3 = Some v3"
  shows "calculateRadiusAndAngle l s =
     Done (s\<lparr>angle := Some (js_mul (Math_acos (js_div (dx_of l v0 v3) (dxy_of l v0 v3)))
                                   (js_neg (Math_sign (dy_of l v0 v3)))),
              radius := Some (js_mul (js_div (dxy_of l v0 v3) (Fin 2))
                                     (Math_min (Fin 1) (this_radius l)))\<rparr>)"
  using assms
  by (simp add: calculateRadiusAndAngle_def dx_of_def dy_of_def dxy_of_def screenCoord_def Let_def)

lemma calculateRadiusAndAngle_wf:
  assumes "props_data l = Some d"
    and "case d of [] \<Rightarrow> True | h # hs \<Rightarrow> 4 \<le> length (vertices h)"
  shows "returned (calculateRadiusAndAngle l s)"
  using assms
  by (auto simp: calculateRadiusAndAngle_def elem_def Let_def split: list.splits)

lemma calculateRadiusAndAngle_buffers:
  "positions (final (calculateRadiusAndAngle l s)) = positions s
   \<and> colors (final (calculateRadiusAndAngle l s)) = colors s
   \<and> pickingColors (final (calculateRadiusAndAngle l s)) = pickingColors s
   \<and> uniforms (final (calculateRadiusAndAngle l s)) = uniforms s
   \<and> attributes (final (calculateRadiusAndAngle l s)) = attributes s
   \<and> dataChanged (final (calculateRadiusAndAngle l s)) = dataChanged s
   \<and> viewportChanged (final (calculateRadiusAndAngle l s)) = viewportChanged s"
  by (simp add: calculateRadiusAndAngle_def Let_def split: option.splits list.splits)

lemma publish_simps [simp]:
  "positions (publish l s) = positions s"
  "colors (publish l s) = colors s"
  "pickingColors (publish l s) = pickingColors s"
  "radius (publish l s) = radius s"
  "angle (publish l s) = angle s"
  "dataChanged (publish l s) = False"
  "viewportChanged (publish l s) = False"
  "uniforms (publish l s) = \<lparr>uniform_radius = radius s, uniform_angle = angle s\<rparr>"
  "attr_positions (attributes (publish l s)) =
     Some \<lparr>attr_value = positions s, instanced = 1, attr_size = 3\<rparr>"
  "attr_colors (attributes (publish l s)) =
     Some \<lparr>attr_value = colors s, instanced = 1, attr_size = 3\<rparr>"
  "attr_pickingColors (attributes (publish l s)) =
     (if this_isPickable l
      then Some \<lparr>attr_value = pickingColors s, instanced = 1, attr_size = 3\<rparr>
      else attr_pickingColors (attributes s))"
  by (simp_all add: publish_def updateUniforms_def updateAttributes_def Let_def)

lemma publish_idem: "publish l (publish l s) = publish l s"
  by (simp add: publish_def updateUniforms_def updateAttributes_def Let_def)

lemma updateLayer_Done_publish:
  "updateLayer l s = Done s1 \<Longrightarrow> \<exists>s2. s1 = publish l s2"
  unfolding updateLayer_unfold by (drule and_then_Done) auto

lemma updateLayer_clean:
  "\<not> dataChanged s \<Longrightarrow> \<not> viewportChanged s \<Longrightarrow> updateLayer l s = Done (publish l s)"
  by (simp add: updateLayer_unfold)

lemma updateLayer_buffers:
  assumes "props_data l = Some d"
  shows "positions (final (updateLayer l s)) =
           (if dataChanged s then positions (final (rebuild l s)) else positions s)"
    and "colors (final (updateLayer l s)) =
           (if dataChanged s then colors (final (rebuild l s)) else colors s)"
    and "pickingColors (final (updateLayer l s)) =
           (if dataChanged s then pickingColors (final (rebuild l s)) else pickingColors s)"
proof -
  obtain sr where sr: "rebuild l s = Done sr"
    by (simp add: rebuild_eq [OF assms])
  have b: "positions (final (and_then (calculateRadiusAndAngle l t) (\<lambda>s. Done (publish l s)))) = positions t
     \<and> colors (final (and_then (calculateRadiusAndAngle l t) (\<lambda>s. Done (publish l s)))) = colors t
     \<and> pickingColors (final (and_then (calculateRadiusAndAngle l t) (\<lambda>s. Done (publish l s)))) = pickingColors t"
    for t
    using calculateRadiusAndAngle_buffers [of l t]
    by (cases "calculateRadiusAndAngle l t") simp_all
  show "positions (final (updateLayer l s)) =
           (if dataChanged s then positions (final (rebuild l s)) else positions s)"
    and "colors (final (updateLayer l s)) =
           (if dataChanged s then colors (final (rebuild l s)) else colors s)"
    and "pickingColors (final (updateLayer l s)) =
           (if dataChanged s then pickingColors (final (rebuild l s)) else pickingColors s)"
    using b [of sr] b [of s] by (simp_all add: updateLayer_unfold sr)
qed

lemma updateLayer_calibrated:
  assumes "props_data l = Some (h # hs)"
    and "elem (vertices h) 0 = Some v0" and "elem (vertices h) 3 = Some v3"
    and "dataChanged s \<or> viewportChanged s"
  shows "returned (updateLayer l s)"
    and "angle (final (updateLayer l s)) =
           Some (js_mul (Math_acos (js_div (dx_of l v0 v3) (dxy_of l v0 v3)))
                        (js_neg (Math_sign (dy_of l v0 v3))))"
    and "radius (final (updateLayer l s)) =
           Some (js_mul (js_div (dxy_of l v0 v3) (Fin 2)) (Math_min (Fin 1) (this_radius l)))"
    and "uniforms (final (updateLayer l s)) =
           \<lparr>uniform_radius = radius (final (updateLayer l s)),
            uniform_angle = angle (final (updateLayer l s))\<rparr>"
  using assms(4)
  by (auto simp: updateLayer_unfold rebuild_eq [OF assms(1)] calculateRadiusAndAngle_eq [OF assms(1-3)])

lemma updateLayer_thrown_attributes:
  "\<not> returned (updateLayer l s) \<Longrightarrow> attributes (final (updateLayer l s)) = attributes s"
proof -
  assume nr: "\<not> returned (updateLayer l s)"
  have c: "attributes (final (calculateRadiusAndAngle l u)) = attributes u" for u
    by (simp add: calculateRadiusAndAngle_buffers)
  show ?thesis
  proof (cases "dataChanged s")
    case True
    show ?thesis
    proof (cases "rebuild l s")
      case (Done sr)
      then have a: "attributes sr = attributes s" using rebuild_attributes [of l s] by simp
      show ?thesis
        using nr True c [of sr] a
        by (cases "calculateRadiusAndAngle l sr") (simp_all add: updateLayer_unfold Done)
    next
      case (Thrown e sr)
      then have "attributes sr = attributes s" using rebuild_attributes [of l s] by simp
      then show ?thesis using True by (simp add: updateLayer_unfold Thrown)
    qed
  next
    case False
    then show ?thesis
      using nr c [of s]
      by (cases "calculateRadiusAndAngle l s"; cases "viewportChanged s")
        (simp_all add: updateLayer_unfold)
  qed
qed

lemma updateLayer_returned_pickingColors:
  assumes "returned (updateLayer l s)"
  shows "attr_pickingColors (attributes (final (updateLayer l s))) =
       (if this_isPickable l
        then Some \<lparr>attr_value = pickingColors (final (updateLayer l s)), instanced = 1, attr_size = 3\<rparr>
        else attr_pickingColors (attributes s))"
proof -
  obtain s1 where s1: "updateLayer l s = Done s1"
    using assms by (cases "updateLayer l s") simp_all
  have c: "attributes (final (calculateRadiusAndAngle l u)) = attributes u" for u
    by (simp add: calculateRadiusAndAngle_buffers)
  from s1 obtain s2 where s2: "s1 = publish l s2"
    and src: "(if dataChanged s then and_then (rebuild l s) (calculateRadiusAndAngle l)
        else if viewportChanged s then calculateRadiusAndAngle l s else Done s) = Done s2"
    unfolding updateLayer_unfold by (auto dest!: and_then_Done)
  have "attributes s2 = attributes s"
  proof (cases "dataChanged s")
    case True
    then obtain sr where sr: "rebuild l s = Done sr" "calculateRadiusAndAngle l sr = Done s2"
      using src by (auto dest!: and_then_Done)
    show ?thesis
      using c [of sr] rebuild_attributes [of l s] by (simp add: sr)
  next
    case False
    then show ?thesis using src c [of s] by (auto split: if_splits)
  qed
  then show ?thesis by (simp add: s1 s2)
qed

subsection \<open>The calibration arithmetic\<close>

lemma dxy_Fin:
  assumes "dxy_of l v0 v3 = Fin d"
  obtains a b where "dx_of l v0 v3 = Fin a" and "dy_of l v0 v3 = Fin b"
    and "d = sqrt (a * a + b * b)"
proof -
  have "\<exists>a b. dx_of l v0 v3 = Fin a \<and> dy_of l v0 v3 = Fin b \<and> d = sqrt (a * a + b * b)"
    using assms unfolding dxy_of_def Let_def
    by (cases "dx_of l v0 v3"; cases "dy_of l v0 v3") (auto split: if_splits)
  then show ?thesis using that by blast
qed


lemma dxy_of_this_radius [simp]: "dxy_of (l\<lparr>this_radius := r\<rparr>) v0 v3 = dxy_of l v0 v3"
  by (simp add: dxy_of_def dx_of_def dy_of_def screenCoord_def)

lemma sum_squares_zero: "sqrt (a * a + b * b) = 0 \<Longrightarrow> a = 0 \<and> b = 0"
  for a b :: real
proof -
  assume "sqrt (a * a + b * b) = 0"
  then have "a * a + b * b = 0" by simp
  then show "a = 0 \<and> b = 0" by (simp add: sum_squares_eq_zero_iff)
qed




lemma degenerate_angle:
  assumes "dxy_of l v0 v3 = Fin 0"
  shows "js_mul (Math_acos (js_div (dx_of l v0 v3) (dxy_of l v0 v3)))
                (js_neg (Math_sign (dy_of l v0 v3))) = NaN"
proof -
  obtain a b where ab: "dx_of l v0 v3 = Fin a" "dy_of l v0 v3 = Fin b"
    and z: "0 = sqrt (a * a + b * b)"
    using assms by (rule dxy_Fin)
  have "sqrt (a * a + b * b) = 0" using z by (rule sym)
  then have a: "a = 0" using sum_squares_zero [of a b] by blast
  have "js_div (Fin a) (Fin 0) = NaN" unfolding a by simp
  then show ?thesis unfolding ab(1) assms by simp
qed

lemma degenerate_radius:
  "js_mul (js_div (Fin 0) (Fin 2)) (Math_min (Fin 1) r) =
     (if r = NaN \<or> r = NInf then NaN else Fin 0)"
  by (cases r) simp_all








subsection \<open>The concrete inputs\<close>

lemmas example_defs =
  example_layer_def example_hexagon_def fresh_state_def identity_project_def
  identity_screenToSpace_def

lemma example_layer_simps [simp]:
  "props_data (example_layer d r p) = Some d"
  "this_numInstances (example_layer d r p) = length d"
  "this_isPickable (example_layer d r p) = p"
  "this_elevation (example_layer d r p) = Fin 101"
  "this_radius (example_layer d r p) = r"
  by (simp_all add: example_layer_def)

lemma fresh_state_simps [simp]:
  "dataChanged (fresh_state dc vc) = dc"
  "viewportChanged (fresh_state dc vc) = vc"
  "positions (fresh_state dc vc) = None"
  "colors (fresh_state dc vc) = None"
  "pickingColors (fresh_state dc vc) = None"
  "radius (fresh_state dc vc) = None"
  "angle (fresh_state dc vc) = None"
  "attr_pickingColors (attributes (fresh_state dc vc)) = None"
  by (simp_all add: fresh_state_def)

lemma example_vertices [simp]:
  "elem (vertices (example_hexagon x0 y0 x3 y3)) 0 = Some (Fin x0, Fin y0)"
  "elem (vertices (example_hexagon x0 y0 x3 y3)) 3 = Some (Fin x3, Fin y3)"
  by (simp_all add: example_hexagon_def elem_def)

lemma example_deltas [simp]:
  "dx_of (example_layer d r p) (Fin x0, Fin y0) (Fin x3, Fin y3) = Fin (x0 - x3)"
  "dy_of (example_layer d r p) (Fin x0, Fin y0) (Fin x3, Fin y3) = Fin (y0 - y3)"
  "dxy_of (example_layer d r p) (Fin x0, Fin y0) (Fin x3, Fin y3) =
     Fin (sqrt ((x0 - x3) * (x0 - x3) + (y0 - y3) * (y0 - y3)))"
  by (simp_all add: dxy_of_def dx_of_def dy_of_def screenCoord_def js_sub_def example_layer_def
      identity_project_def identity_screenToSpace_def Let_def not_less)

lemma example_returns:
  "returned (updateLayer (example_layer [example_hexagon 2 0 0 0] (Fin 10) p) (fresh_state dc vc))"
  by (simp add: updateLayer_unfold rebuild_eq example_layer_def
      calculateRadiusAndAngle_def example_hexagon_def elem_def Let_def)

section \<open>The claims\<close>

subsection \<open>C1: a degenerate projection\<close>

text \<open>
  C1 (as amended). The claim asks that, when the two projected reference points coincide
  (\<open>dxy = 0\<close>), no NaN reaches the published uniforms. The layer has no guard: for
  every such input an update pass that calibrates (one of the two flags set) returns and
  publishes the angle NaN, the value of \<open>acos(0/0) * -sign(0)\<close>. The published radius
  is \<open>0 * min(1, radius)\<close>: 0, except for a radius option that is NaN or -Infinity,
  where it is NaN as well.
\<close>

theorem degenerate_projection:
  assumes "props_data l = Some (h # hs)"
    and "elem (vertices h) 0 = Some v0" and "elem (vertices h) 3 = Some v3"
    and "dxy_of l v0 v3 = Fin 0"
    and "dataChanged s \<or> viewportChanged s"
  shows "returned (updateLayer l s)
       \<and> uniform_angle (uniforms (final (updateLayer l s))) = Some NaN
       \<and> uniform_radius (uniforms (final (updateLayer l s))) =
           Some (if this_radius l = NaN \<or> this_radius l = NInf then NaN else Fin 0)"
  using updateLayer_calibrated [OF assms(1-3,5)] degenerate_angle [OF assms(4)]
    degenerate_radius [of "this_radius l"]
  by (simp add: assms(4))

text \<open>
  C1, the claim as stated fails: both reference vertices at (3, 4) under identity
  projections give \<open>dxy = 0\<close>, and the pass publishes NaN as the angle.
\<close>

theorem degenerate_projection_counterexample:
  "returned (updateLayer (example_layer [example_hexagon 3 4 3 4] (Fin 10) False)
               (fresh_state True False))
   \<and> dxy_of (example_layer [example_hexagon 3 4 3 4] (Fin 10) False) (Fin 3, Fin 4) (Fin 3, Fin 4)
       = Fin 0
   \<and> uniform_angle (uniforms (final (updateLayer (example_layer [example_hexagon 3 4 3 4] (Fin 10) False)
                                       (fresh_state True False)))) = Some NaN"
  by (simp add: updateLayer_unfold rebuild_eq calculateRadiusAndAngle_eq [where hs = "[]"])

text \<open>C1, witness: both reference vertices at the origin, only the viewport changed.\<close>

theorem degenerate_projection_witness:
  "uniform_angle (uniforms (final (updateLayer (example_layer [example_hexagon 0 0 0 0] (Fin 10) False)
                                     (fresh_state False True)))) = Some NaN
   \<and> uniform_radius (uniforms (final (updateLayer (example_layer [example_hexagon 0 0 0 0] (Fin 10) False)
                                     (fresh_state False True)))) = Some (Fin 0)"
proof -
  let ?L = "example_layer [example_hexagon 0 0 0 0] (Fin 10) False"
  have d: "props_data ?L = Some (example_hexagon 0 0 0 0 # [])" by simp
  have z: "dxy_of ?L (Fin 0, Fin 0) (Fin 0, Fin 0) = Fin 0" by simp
  have f: "dataChanged (fresh_state False True) \<or> viewportChanged (fresh_state False True)"
    by simp
  show ?thesis
    using degenerate_projection [OF d example_vertices z f] by simp
qed

subsection \<open>C2: what an update pass runs\<close>

text \<open>
  C2. On a dataset that is present and whose first item, if any, has at least four
  vertices, every update pass returns, and its final state is the terminal step
  (publish uniforms, publish attributes, clear both flags) applied to: the state after
  allocate, fill and then calibrate when \<open>dataChanged\<close> is set, whatever
  \<open>viewportChanged\<close> is; the state after calibrate alone when only
  \<open>viewportChanged\<close> is set; the unchanged state when neither is set. So the buffers
  are the prior ones unless \<open>dataChanged\<close> was set, radius and angle are the prior
  ones when no flag was set, and in every case the published uniforms are the current
  radius and angle, the published attributes carry the current buffers, and both flags
  are false.
\<close>

theorem updateLayer_schedule:
  assumes "props_data l = Some d"
    and "case d of [] \<Rightarrow> True | h # hs \<Rightarrow> 4 \<le> length (vertices h)"
  shows "returned (rebuild l s)
       \<and> returned (calculateRadiusAndAngle l (final (rebuild l s)))
       \<and> returned (calculateRadiusAndAngle l s)
       \<and> updateLayer l s =
           Done (publish l
             (if dataChanged s then final (calculateRadiusAndAngle l (final (rebuild l s)))
              else if viewportChanged s then final (calculateRadiusAndAngle l s)
              else s))
       \<and> positions (final (updateLayer l s)) =
           (if dataChanged s then positions (final (rebuild l s)) else positions s)
       \<and> colors (final (updateLayer l s)) =
           (if dataChanged s then colors (final (rebuild l s)) else colors s)
       \<and> pickingColors (final (updateLayer l s)) =
           (if dataChanged s then pickingColors (final (rebuild l s)) else pickingColors s)
       \<and> radius (final (updateLayer l s)) =
           (if dataChanged s then radius (final (calculateRadiusAndAngle l (final (rebuild l s))))
            else if viewportChanged s then radius (final (calculateRadiusAndAngle l s))
            else radius s)
       \<and> angle (final (updateLayer l s)) =
           (if dataChanged s then angle (final (calculateRadiusAndAngle l (final (rebuild l s))))
            else if viewportChanged s then angle (final (calculateRadiusAndAngle l s))
            else angle s)
       \<and> uniforms (final (updateLayer l s)) =
           \<lparr>uniform_radius = radius (final (updateLayer l s)),
            uniform_angle = angle (final (updateLayer l s))\<rparr>
       \<and> attr_positions (attributes (final (updateLayer l s))) =
           Some \<lparr>attr_value = positions (final (updateLayer l s)), instanced = 1, attr_size = 3\<rparr>
       \<and> attr_colors (attributes (final (updateLayer l s))) =
           Some \<lparr>attr_value = colors (final (updateLayer l s)), instanced = 1, attr_size = 3\<rparr>
       \<and> (if this_isPickable l
          then attr_pickingColors (attributes (final (updateLayer l s))) =
            Some \<lparr>attr_value = pickingColors (final (updateLayer l s)), instanced = 1, attr_size = 3\<rparr>
          else attr_pickingColors (attributes (final (updateLayer l s))) =
            attr_pickingColors (attributes s))
       \<and> dataChanged (final (updateLayer l s)) = False
       \<and> viewportChanged (final (updateLayer l s)) = False"
proof -
  have r: "returned (rebuild l s)"
    by (simp add: rebuild_eq [OF assms(1)])
  have c1: "returned (calculateRadiusAndAngle l (final (rebuild l s)))"
    and c2: "returned (calculateRadiusAndAngle l s)"
    by (rule calculateRadiusAndAngle_wf [OF assms])+
  have u: "updateLayer l s =
           Done (publish l
             (if dataChanged s then final (calculateRadiusAndAngle l (final (rebuild l s)))
              else if viewportChanged s then final (calculateRadiusAndAngle l s)
              else s))"
  proof -
    obtain sr where sr: "rebuild l s = Done sr"
      using r by (cases "rebuild l s") simp_all
    obtain sc where sc: "calculateRadiusAndAngle l sr = Done sc"
      using c1 by (cases "calculateRadiusAndAngle l sr") (simp_all add: sr)
    obtain sv where sv: "calculateRadiusAndAngle l s = Done sv"
      using c2 by (cases "calculateRadiusAndAngle l s") simp_all
    show ?thesis
      by (simp add: updateLayer_unfold sr sc sv)
  qed
  have att: "attributes (final (calculateRadiusAndAngle l (final (rebuild l s)))) = attributes s"
    by (simp add: calculateRadiusAndAngle_buffers rebuild_eq [OF assms(1)])
  show ?thesis
    using r c1 c2 att by (simp add: u calculateRadiusAndAngle_buffers)
qed

text \<open>
  C2, witness: a one-item dataset, once with only the data changed, once with only the
  viewport changed (the buffers stay unallocated), once with no flag (nothing computed).
\<close>

theorem updateLayer_schedule_witness:
  "dataChanged (final (updateLayer (example_layer [example_hexagon 2 0 0 0] (Fin 10) True)
                  (fresh_state True False))) = False
   \<and> positions (final (updateLayer (example_layer [example_hexagon 2 0 0 0] (Fin 10) True)
                  (fresh_state False True))) = None
   \<and> radius (final (updateLayer (example_layer [example_hexagon 2 0 0 0] (Fin 10) True)
                  (fresh_state False False))) = None"
proof -
  let ?L = "example_layer [example_hexagon 2 0 0 0] (Fin 10) True"
  have d: "props_data ?L = Some [example_hexagon 2 0 0 0]" by simp
  have v: "case [example_hexagon 2 0 0 0] of [] \<Rightarrow> True | h # hs \<Rightarrow> 4 \<le> length (vertices h)"
    by (simp add: example_hexagon_def)
  show ?thesis
    using updateLayer_schedule [OF d v, of "fresh_state True False"]
      updateLayer_schedule [OF d v, of "fresh_state False True"]
      updateLayer_schedule [OF d v, of "fresh_state False False"]
    by (elim conjE) simp
qed

subsection \<open>C3: what fill writes\<close>

text \<open>
  C3 (as amended). The claim says the buffers hold the centroid, the elevation and the
  colour channels exactly, with no rounding. The buffers are \<open>Float32Array\<close>s, so each
  stored value is the source value converted to binary32: for every item \<open>i\<close> of a
  dataset of \<open>N\<close> items, after allocate and fill, \<open>positions[3i+0]\<close>,
  \<open>positions[3i+1]\<close> and \<open>positions[3i+2]\<close> are \<open>fround\<close> of
  \<open>centroid.x\<close>, of \<open>centroid.y\<close> and of the elevation, and \<open>colors[3i+k]\<close>
  is \<open>fround\<close> of \<open>color[k]\<close> (NaN for a missing channel). No other transform is
  applied, and the conversion is the identity on every integer below 2^24 in magnitude,
  such as the default elevation 101 and colour channels 0 to 255.
\<close>

theorem fill_values:
  assumes "props_data l = Some d" and "this_numInstances l = length d" and "i < length d"
  shows "map_option (\<lambda>p. p ! (3 * i + 0)) (positions (final (rebuild l s))) =
           Some (fround (px (centroid (d ! i))))
       \<and> map_option (\<lambda>p. p ! (3 * i + 1)) (positions (final (rebuild l s))) =
           Some (fround (py (centroid (d ! i))))
       \<and> map_option (\<lambda>p. p ! (3 * i + 2)) (positions (final (rebuild l s))) =
           Some (fround (this_elevation l))
       \<and> map_option (\<lambda>c. c ! (3 * i + 0)) (colors (final (rebuild l s))) =
           Some (fround (ToNumber (elem (color (d ! i)) 0)))
       \<and> map_option (\<lambda>c. c ! (3 * i + 1)) (colors (final (rebuild l s))) =
           Some (fround (ToNumber (elem (color (d ! i)) 1)))
       \<and> map_option (\<lambda>c. c ! (3 * i + 2)) (colors (final (rebuild l s))) =
           Some (fround (ToNumber (elem (color (d ! i)) 2)))
       \<and> (if \<bar>n\<bar> < 2 ^ 24 then fround (Fin (of_int n)) = Fin (of_int n) else True)"
proof -
  have room: "(0 + length d) * 3 \<le> length (new_Float32Array (this_numInstances l * 3))"
    by (simp add: assms(2) new_Float32Array_def)
  have idx: "3 * i + 0 = (0 + i) * 3 + 0" "3 * i + 1 = (0 + i) * 3 + 1" "3 * i + 2 = (0 + i) * 3 + 2"
    by simp_all
  note p = fill3_nth [OF assms(3) room, of "\<lambda>h. px (centroid h)" "\<lambda>h. py (centroid h)"
      "\<lambda>h. this_elevation l"]
  note c = fill3_nth [OF assms(3) room, of "\<lambda>h. ToNumber (elem (color h) 0)"
      "\<lambda>h. ToNumber (elem (color h) 1)" "\<lambda>h. ToNumber (elem (color h) 2)"]
  show ?thesis
    unfolding idx using p c
    by (simp add: rebuild_eq [OF assms(1)] position_of_fill3 color_of_fill3 binary32_of_int)
qed

text \<open>
  C3, the claim as stated fails: the centroid abscissa 16777217 = 2^24 + 1 is stored as
  16777216.
\<close>

theorem fill_rounds_counterexample:
  "positions (final (updateLayer (example_layer [wide_hexagon] (Fin 10) False) (fresh_state True False)))
     = Some [Fin 16777216, Fin 2, Fin 101]
   \<and> px (centroid wide_hexagon) = Fin 16777217"
  by (simp add: updateLayer_buffers rebuild_eq example_defs wide_hexagon_def position_of_def
      store_def new_Float32Array_def binary32_numeral binary32_16777217 numeral_3_eq_3)

text \<open>C3, witness: the elevation 101 and the colour channel 20 of the example hexagon.\<close>

theorem fill_values_witness:
  "map_option (\<lambda>p. p ! (3 * 0 + 2))
     (positions (final (rebuild (example_layer [example_hexagon 2 0 0 0] (Fin 10) False) (fresh_state True False))))
   = Some (Fin 101)
   \<and> map_option (\<lambda>c. c ! (3 * 0 + 1))
     (colors (final (rebuild (example_layer [example_hexagon 2 0 0 0] (Fin 10) False) (fresh_state True False))))
   = Some (Fin 20)
   \<and> fround (Fin (of_int 255)) = Fin (of_int 255)"
proof -
  let ?L = "example_layer [example_hexagon 2 0 0 0] (Fin 10) False"
  have d: "props_data ?L = Some [example_hexagon 2 0 0 0]" by simp
  have n: "this_numInstances ?L = length [example_hexagon 2 0 0 0]" by simp
  have i: "0 < length [example_hexagon 2 0 0 0]" by simp
  have c: "color (example_hexagon 2 0 0 0) = [Fin 10, Fin 20, Fin 30]"
    by (simp add: example_hexagon_def)
  show ?thesis
    using fill_values [OF d n i, of "fresh_state True False" 255]
    by (simp add: c elem_def binary32_numeral)
qed

subsection \<open>C4: the radius clamp\<close>



subsection \<open>C5: fewer than four vertices\<close>

text \<open>
  C5 (as amended). The claim asks that a vertex list of fewer than four entries be
  reported as invalid input at the entry of the update. The layer validates nothing.
  When the first item has fewer than four vertices, a pass with \<open>dataChanged\<close> set
  first allocates and fills, then throws a TypeError from the calibration, leaving the
  new buffers in the state with nothing published and no flag cleared; a pass with only
  \<open>viewportChanged\<close> set throws the TypeError with the state untouched; a pass with
  no flag set returns normally.
\<close>

theorem short_vertices:
  assumes "props_data l = Some (h # hs)" and "length (vertices h) < 4"
  shows "returned (rebuild l s)
       \<and> updateLayer l s =
           (if dataChanged s then Thrown TypeError (final (rebuild l s))
            else if viewportChanged s then Thrown TypeError s
            else Done (publish l s))
       \<and> uniforms (final (rebuild l s)) = uniforms s
       \<and> attributes (final (rebuild l s)) = attributes s
       \<and> dataChanged (final (rebuild l s)) = dataChanged s
       \<and> viewportChanged (final (rebuild l s)) = viewportChanged s"
proof -
  obtain sr where sr: "rebuild l s = Done sr"
    by (simp add: rebuild_eq [OF assms(1)])
  have c: "calculateRadiusAndAngle l t = Thrown TypeError t" for t
    by (rule calculateRadiusAndAngle_short [OF assms])
  have "updateLayer l s =
           (if dataChanged s then Thrown TypeError (final (rebuild l s))
            else if viewportChanged s then Thrown TypeError s
            else Done (publish l s))"
    by (simp add: updateLayer_unfold sr c)
  then show ?thesis
    by (simp add: rebuild_eq [OF assms(1)])
qed

text \<open>
  C5, the claim as stated fails: with a three-vertex first item the TypeError comes after
  the buffers were replaced, and with a three-vertex second item nothing is reported at
  all.
\<close>

theorem short_vertices_counterexample:
  "updateLayer (example_layer [short_hexagon] (Fin 10) False) (fresh_state True False) =
     Thrown TypeError
       ((fresh_state True False)\<lparr>positions := Some [Fin 1, Fin 2, Fin 101],
                                  colors := Some [Fin 10, Fin 20, Fin 30]\<rparr>)
   \<and> returned (updateLayer (example_layer [example_hexagon 2 0 0 0, short_hexagon] (Fin 10) False)
                 (fresh_state True False))"
  by (simp add: updateLayer_unfold rebuild_eq calculateRadiusAndAngle_def short_hexagon_def
      example_defs position_of_def color_of_def store_def elem_def new_Float32Array_def
      binary32_numeral numeral_3_eq_3 Let_def)

text \<open>C5, witness: the three-vertex item with only the viewport changed, and with no flag.\<close>

theorem short_vertices_witness:
  "updateLayer (example_layer [short_hexagon] (Fin 10) False) (fresh_state False True) =
     Thrown TypeError (fresh_state False True)
   \<and> updateLayer (example_layer [short_hexagon] (Fin 10) False) (fresh_state False False) =
     Done (publish (example_layer [short_hexagon] (Fin 10) False) (fresh_state False False))"
proof -
  let ?L = "example_layer [short_hexagon] (Fin 10) False"
  have d: "props_data ?L = Some (short_hexagon # [])" by simp
  have v: "length (vertices short_hexagon) < 4" by (simp add: short_hexagon_def)
  show ?thesis
    using short_vertices [OF d v, of "fresh_state False True"]
      short_vertices [OF d v, of "fresh_state False False"]
    by simp
qed

subsection \<open>C6: the empty dataset\<close>

text \<open>
  C6. On an empty dataset (no item, instance count 0) every update pass returns:
  allocate yields buffers of length 0, the two fills leave the state as it is, the
  calibration returns the state as it is, and radius and angle after the pass are those
  before it.
\<close>

theorem empty_dataset:
  assumes "props_data l = Some []" and "this_numInstances l = 0"
  shows "returned (updateLayer l s)
       \<and> positions (allocateGLBuffers l s) = Some []
       \<and> colors (allocateGLBuffers l s) = Some []
       \<and> calculatePositions l (allocateGLBuffers l s) = Done (allocateGLBuffers l s)
       \<and> calculateColors l (allocateGLBuffers l s) = Done (allocateGLBuffers l s)
       \<and> calculateRadiusAndAngle l t = Done t
       \<and> radius (final (updateLayer l s)) = radius s
       \<and> angle (final (updateLayer l s)) = angle s
       \<and> positions (final (updateLayer l s)) = (if dataChanged s then Some [] else positions s)
       \<and> colors (final (updateLayer l s)) = (if dataChanged s then Some [] else colors s)"
proof -
  have c: "calculateRadiusAndAngle l t = Done t" for t
    using assms(1) by (simp add: calculateRadiusAndAngle_nodata)
  have a: "positions (allocateGLBuffers l s) = Some []" "colors (allocateGLBuffers l s) = Some []"
    using assms(2) by (simp_all add: allocateGLBuffers_def new_Float32Array_def Let_def)
  have f: "calculatePositions l (allocateGLBuffers l s) = Done (allocateGLBuffers l s)"
    "calculateColors l (allocateGLBuffers l s) = Done (allocateGLBuffers l s)"
    using assms(1) a by (simp_all add: calculatePositions_def calculateColors_def)
  have u: "returned (updateLayer l s)"
    "radius (final (updateLayer l s)) = radius s" "angle (final (updateLayer l s)) = angle s"
    by (simp_all add: updateLayer_unfold c rebuild_eq [OF assms(1)])
  have b: "positions (final (updateLayer l s)) = (if dataChanged s then Some [] else positions s)"
    "colors (final (updateLayer l s)) = (if dataChanged s then Some [] else colors s)"
    using assms(2)
    by (simp_all add: updateLayer_buffers [OF assms(1)] rebuild_eq [OF assms(1)] new_Float32Array_def)
  show ?thesis using c a f u b by simp
qed

text \<open>C6, witness: the empty dataset on a fresh state with both flags set.\<close>

theorem empty_dataset_witness:
  "positions (final (updateLayer (example_layer [] (Fin 10) False) (fresh_state True True))) = Some []
   \<and> radius (final (updateLayer (example_layer [] (Fin 10) False) (fresh_state True True))) = None
   \<and> returned (updateLayer (example_layer [] (Fin 10) False) (fresh_state True True))"
proof -
  let ?L = "example_layer [] (Fin 10) False"
  have d: "props_data ?L = Some []" by simp
  have n: "this_numInstances ?L = 0" by simp
  show ?thesis
    using empty_dataset [OF d n, of "fresh_state True True"]
    by simp
qed

subsection \<open>C7: a second update\<close>

text \<open>
  C7. After an update pass that returned, a second pass on the resulting state, with no
  flag set in between, returns that very state: the same published uniforms and
  attributes, the same buffers, and both flags false.
\<close>

theorem updateLayer_idempotent:
  assumes "updateLayer l s = Done s1"
  shows "updateLayer l s1 = Done s1
       \<and> uniforms (final (updateLayer l s1)) = uniforms s1
       \<and> attributes (final (updateLayer l s1)) = attributes s1
       \<and> \<not> dataChanged (final (updateLayer l s1))
       \<and> \<not> viewportChanged (final (updateLayer l s1))"
proof -
  obtain s2 where s1: "s1 = publish l s2"
    using updateLayer_Done_publish [OF assms] by blast
  have "updateLayer l s1 = Done (publish l s1)"
    by (rule updateLayer_clean) (simp_all add: s1)
  then have "updateLayer l s1 = Done s1"
    by (simp add: s1 publish_idem)
  then show ?thesis by (simp add: s1)
qed

text \<open>C7, witness: a pickable one-item layer, updated twice.\<close>

theorem updateLayer_idempotent_witness:
  "returned (updateLayer (example_layer [example_hexagon 2 0 0 0] (Fin 10) True) (fresh_state True False))
   \<and> updateLayer (example_layer [example_hexagon 2 0 0 0] (Fin 10) True)
     (final (updateLayer (example_layer [example_hexagon 2 0 0 0] (Fin 10) True) (fresh_state True False)))
   = Done (final (updateLayer (example_layer [example_hexagon 2 0 0 0] (Fin 10) True) (fresh_state True False)))"
  using updateLayer_idempotent [OF returned_final [OF example_returns [of True True False]]]
    example_returns [of True True False]
  by simp

subsection \<open>C8: buffer lengths and the picking buffer\<close>

text \<open>
  C8. For a dataset of \<open>N\<close> items (the instance count being \<open>N\<close>), after allocate
  and fill the positions and colors buffers have length \<open>3N\<close>, and they do not
  depend on the state before the pass, so nothing of an earlier dataset survives. On a
  layer that is not pickable and never held a picking buffer, the picking buffer stays
  absent, in the state and in the published attributes; on a pickable layer it is
  present with length \<open>3N\<close>.
\<close>

theorem buffer_lengths:
  assumes "props_data l = Some d" and "this_numInstances l = length d"
    and "dataChanged s" and "dataChanged t"
    and "this_isPickable l \<or> (pickingColors s = None \<and> attr_pickingColors (attributes s) = None)"
  shows "returned (rebuild l s)
       \<and> map_option length (positions (final (rebuild l s))) = Some (3 * length d)
       \<and> map_option length (colors (final (rebuild l s))) = Some (3 * length d)
       \<and> map_option length (positions (final (updateLayer l s))) = Some (3 * length d)
       \<and> map_option length (colors (final (updateLayer l s))) = Some (3 * length d)
       \<and> positions (final (updateLayer l s)) = positions (final (updateLayer l t))
       \<and> colors (final (updateLayer l s)) = colors (final (updateLayer l t))
       \<and> (pickingColors (final (updateLayer l s)) \<noteq> None) = this_isPickable l
       \<and> (if this_isPickable l
          then map_option length (pickingColors (final (updateLayer l s))) = Some (3 * length d)
          else pickingColors (final (updateLayer l s)) = None)
       \<and> (if returned (updateLayer l s)
          then (attr_pickingColors (attributes (final (updateLayer l s))) \<noteq> None) = this_isPickable l
          else attributes (final (updateLayer l s)) = attributes s)"
proof -
  have bufs: "returned (rebuild l s)
       \<and> map_option length (positions (final (rebuild l s))) = Some (3 * length d)
       \<and> map_option length (colors (final (rebuild l s))) = Some (3 * length d)
       \<and> map_option length (positions (final (updateLayer l s))) = Some (3 * length d)
       \<and> map_option length (colors (final (updateLayer l s))) = Some (3 * length d)
       \<and> positions (final (updateLayer l s)) = positions (final (updateLayer l t))
       \<and> colors (final (updateLayer l s)) = colors (final (updateLayer l t))
       \<and> (pickingColors (final (updateLayer l s)) \<noteq> None) = this_isPickable l
       \<and> (if this_isPickable l
          then map_option length (pickingColors (final (updateLayer l s))) = Some (3 * length d)
          else pickingColors (final (updateLayer l s)) = None)"
    using assms
    by (auto simp: updateLayer_buffers [OF assms(1)] rebuild_eq [OF assms(1)]
        position_of_fill3 color_of_fill3 new_Float32Array_def)
  have att: "(if returned (updateLayer l s)
          then (attr_pickingColors (attributes (final (updateLayer l s))) \<noteq> None) = this_isPickable l
          else attributes (final (updateLayer l s)) = attributes s)"
    using assms(5)
    by (auto simp: updateLayer_returned_pickingColors updateLayer_thrown_attributes)
  show ?thesis
    apply (insert bufs att)
    apply (elim conjE)
    apply (intro conjI)
    apply assumption+
    done
qed

text \<open>
  C8, witness: three items; not pickable, the picking buffer is absent; pickable, it has
  length 9.
\<close>

theorem buffer_lengths_witness:
  "map_option length (positions (final (updateLayer
      (example_layer [example_hexagon 2 0 0 0, example_hexagon 2 0 0 0, example_hexagon 2 0 0 0] (Fin 10) False)
      (fresh_state True False)))) = Some 9
   \<and> pickingColors (final (updateLayer
      (example_layer [example_hexagon 2 0 0 0, example_hexagon 2 0 0 0, example_hexagon 2 0 0 0] (Fin 10) False)
      (fresh_state True False))) = None
   \<and> map_option length (pickingColors (final (updateLayer
      (example_layer [example_hexagon 2 0 0 0, example_hexagon 2 0 0 0, example_hexagon 2 0 0 0] (Fin 10) True)
      (fresh_state True False)))) = Some 9"
proof -
  let ?d = "[example_hexagon 2 0 0 0, example_hexagon 2 0 0 0, example_hexagon 2 0 0 0]"
  let ?L = "example_layer ?d (Fin 10) False"
  let ?P = "example_layer ?d (Fin 10) True"
  have dL: "props_data ?L = Some ?d" and dP: "props_data ?P = Some ?d" by simp_all
  have nL: "this_numInstances ?L = length ?d" and nP: "this_numInstances ?P = length ?d"
    by simp_all
  have f: "dataChanged (fresh_state True False)" by simp
  have pL: "this_isPickable ?L \<or> (pickingColors (fresh_state True False) = None
      \<and> attr_pickingColors (attributes (fresh_state True False)) = None)"
    by simp
  have pP: "this_isPickable ?P \<or> (pickingColors (fresh_state True False) = None
      \<and> attr_pickingColors (attributes (fresh_state True False)) = None)"
    by simp
  show ?thesis
    using buffer_lengths [OF dL nL f f pL] buffer_lengths [OF dP nP f f pP]
    by (elim conjE) simp
qed

subsection \<open>C9: the bounds of the calibration result\<close>




subsection \<open>C10: a level reference axis\<close>



end
